theory Spec2Isabelle
  imports Main "HOL-Library.Monad_Syntax"
begin

section \<open>The B+ tree index (database/physical/b\_plus\_tree.c)\<close>

text \<open>
  Nodes live in a store addressed by natural numbers; address \<open>0\<close> is the C \<open>NULL\<close>.
  The fixed-size arrays of a node are lists of that size, written by index; the entries
  beyond \<open>num_keys\<close> are whatever earlier operations left there, as in the C program.
  \<open>malloc\<close> always succeeds and hands out the next unused address; \<open>free\<close> removes the
  address from the set of live nodes.  Keys are C \<open>int\<close>s and offsets C \<open>long\<close>s; the code
  only compares and copies them, so they are modelled as unbounded integers.  A function
  whose loop follows pointers returns \<open>None\<close> when the C loop would not return.
\<close>

definition MAX_KEYS :: nat where
  "MAX_KEYS = 4"

definition MIN_KEYS :: nat where
  "MIN_KEYS = MAX_KEYS div 2"

record BPlusTreeNode =
  keys :: "int list"
  file_offsets :: "int list"
  children :: "nat list"
  num_keys :: nat
  is_leaf :: bool
  parent :: nat
  next_leaf :: nat

record BPlusTree =
  heap :: "nat \<Rightarrow> BPlusTreeNode"
  live :: "nat set"
  brk :: nat
  root :: nat
  order :: nat

subsection \<open>Array loops\<close>

text \<open>
  The loops that move array entries inside one node touch each array on its own, so each
  is a function on one array.

  \<open>for (i = hi; i > lo; i--) a[i] = a[i - 1];\<close>
\<close>

definition shift_up :: "nat \<Rightarrow> nat \<Rightarrow> 'a list \<Rightarrow> 'a list" where
  "shift_up lo hi a = fold (\<lambda>i a. a[i := a ! (i - 1)]) (rev [lo + 1 ..< hi + 1]) a"

text \<open>\<open>for (i = lo; i < hi; i++) a[i] = a[i + 1];\<close>\<close>

definition shift_down :: "nat \<Rightarrow> nat \<Rightarrow> 'a list \<Rightarrow> 'a list" where
  "shift_down lo hi a = fold (\<lambda>i a. a[i := a ! (i + 1)]) [lo ..< hi] a"

text \<open>\<open>for (i = 0; i < n; i++) dst[d + i] = src[s + i];\<close>\<close>

definition copy_range :: "nat \<Rightarrow> 'a list \<Rightarrow> nat \<Rightarrow> nat \<Rightarrow> 'a list \<Rightarrow> 'a list" where
  "copy_range n src s d dst = fold (\<lambda>i a. a[d + i := src ! (s + i)]) [0 ..< n] dst"

subsection \<open>Store updates\<close>

definition upd_node :: "nat \<Rightarrow> (BPlusTreeNode \<Rightarrow> BPlusTreeNode) \<Rightarrow> BPlusTree \<Rightarrow> BPlusTree" where
  "upd_node a f t = t\<lparr>heap := (heap t)(a := f (heap t a))\<rparr>"

text \<open>\<open>if (c) c->parent = p;\<close>\<close>

definition set_parent_if :: "nat \<Rightarrow> nat \<Rightarrow> BPlusTree \<Rightarrow> BPlusTree" where
  "set_parent_if p c t = (if c = 0 then t else upd_node c (\<lambda>n. n\<lparr>parent := p\<rparr>) t)"

definition free_node :: "nat \<Rightarrow> BPlusTree \<Rightarrow> BPlusTree" where
  "free_node a t = t\<lparr>live := live t - {a}\<rparr>"

subsection \<open>Initialization\<close>

definition empty_node :: "bool \<Rightarrow> BPlusTreeNode" where
  "empty_node leaf =
     \<lparr>keys = replicate MAX_KEYS 0, file_offsets = replicate MAX_KEYS 0,
      children = replicate (MAX_KEYS + 1) 0, num_keys = 0, is_leaf = leaf,
      parent = 0, next_leaf = 0\<rparr>"

definition create_new_node :: "bool \<Rightarrow> BPlusTree \<Rightarrow> nat \<times> BPlusTree" where
  "create_new_node leaf t =
     (brk t, t\<lparr>heap := (heap t)(brk t := empty_node leaf),
               live := insert (brk t) (live t), brk := brk t + 1\<rparr>)"

definition initialize_tree :: BPlusTree where
  "initialize_tree =
     (let c = create_new_node True
                \<lparr>heap = (\<lambda>a. empty_node True), live = {}, brk = 1, root = 0, order = 0\<rparr>
      in upd_node (fst c) (\<lambda>n. n\<lparr>parent := 0\<rparr>) ((snd c)\<lparr>root := fst c, order := MAX_KEYS + 1\<rparr>))"

subsection \<open>Search\<close>

text \<open>\<open>while (i < current->num_keys && key >= current->keys[i]) i++;\<close>\<close>

function child_index :: "BPlusTreeNode \<Rightarrow> int \<Rightarrow> nat \<Rightarrow> nat" where
  "child_index n key i =
     (if i < num_keys n \<and> key \<ge> keys n ! i then child_index n key (i + 1) else i)"
  by pat_completeness auto
termination
  by (relation "measure (\<lambda>(n, key, i). num_keys n - i)") auto

partial_function (option) find_leaf_node :: "(nat \<Rightarrow> BPlusTreeNode) \<Rightarrow> nat \<Rightarrow> int \<Rightarrow> nat option" where
  "find_leaf_node h current key =
     (if current = 0 then Some 0
      else if is_leaf (h current) then Some current
      else find_leaf_node h (children (h current) ! child_index (h current) key 0) key)"

text \<open>\<open>for (i = 0; i < leaf->num_keys; i++) if (leaf->keys[i] == key) return leaf->file_offsets[i];\<close>\<close>

function leaf_lookup :: "BPlusTreeNode \<Rightarrow> int \<Rightarrow> nat \<Rightarrow> int" where
  "leaf_lookup n key i =
     (if i < num_keys n
      then (if keys n ! i = key then file_offsets n ! i else leaf_lookup n key (i + 1))
      else - 1)"
  by pat_completeness auto
termination
  by (relation "measure (\<lambda>(n, key, i). num_keys n - i)") auto

definition search_key :: "BPlusTree \<Rightarrow> int \<Rightarrow> int option" where
  "search_key tree key =
     (if root tree = 0 then Some (- 1)
      else do {
        leaf \<leftarrow> find_leaf_node (heap tree) (root tree) key;
        if leaf = 0 then Some (- 1) else Some (leaf_lookup (heap tree leaf) key 0)
      })"

subsection \<open>Insertion\<close>

text \<open>
  \<open>insert_into_leaf\<close>: \<open>i = num_keys - 1; while (i >= 0 && key < keys[i]) { keys[i + 1] = keys[i];
  file_offsets[i + 1] = file_offsets[i]; i--; }\<close>.  The comparisons read entries the loop has
  not written yet, so the loop is the search for the position (the counter is the C
  \<open>i + 1\<close>, a natural number when \<open>i\<close> reaches \<open>-1\<close>) followed by the shift.
\<close>

function insert_pos :: "int list \<Rightarrow> int \<Rightarrow> nat \<Rightarrow> nat" where
  "insert_pos ks key j = (if 0 < j \<and> key < ks ! (j - 1) then insert_pos ks key (j - 1) else j)"
  by pat_completeness auto
termination
  by (relation "measure (\<lambda>(ks, key, j). j)") auto

definition insert_into_leaf :: "int \<Rightarrow> int \<Rightarrow> BPlusTreeNode \<Rightarrow> BPlusTreeNode" where
  "insert_into_leaf key file_offset leaf =
     (let j = insert_pos (keys leaf) key (num_keys leaf)
      in leaf\<lparr>keys := (shift_up j (num_keys leaf) (keys leaf))[j := key],
              file_offsets := (shift_up j (num_keys leaf) (file_offsets leaf))[j := file_offset],
              num_keys := num_keys leaf + 1\<rparr>)"

text \<open>
  \<open>for (i = node->num_keys; i > index; i--) { keys[i] = keys[i - 1]; children[i + 1] = children[i]; }\<close>
\<close>

definition insert_into_node :: "nat \<Rightarrow> nat \<Rightarrow> int \<Rightarrow> nat \<Rightarrow> BPlusTree \<Rightarrow> BPlusTree" where
  "insert_into_node node index key right_child t =
     (let t1 = upd_node node
                 (\<lambda>n. n\<lparr>keys := (shift_up index (num_keys n) (keys n))[index := key],
                         children := (shift_up (index + 1) (num_keys n + 1) (children n))
                                       [index + 1 := right_child]\<rparr>) t;
          t2 = set_parent_if node right_child t1
      in upd_node node (\<lambda>n. n\<lparr>num_keys := num_keys n + 1\<rparr>) t2)"

text \<open>
  The temporary arrays of a leaf split.
  \<open>while (i < MAX_KEYS && key > leaf->keys[i]) { temp_keys[i] = leaf->keys[i]; ...; i++; }\<close>
\<close>

function split_pos :: "int list \<Rightarrow> int \<Rightarrow> nat \<Rightarrow> nat" where
  "split_pos ks key i = (if i < MAX_KEYS \<and> key > ks ! i then split_pos ks key (i + 1) else i)"
  by pat_completeness auto
termination
  by (relation "measure (\<lambda>(ks, key, i). MAX_KEYS - i)") auto

definition split_temp :: "BPlusTreeNode \<Rightarrow> int \<Rightarrow> int \<Rightarrow> int list \<times> int list" where
  "split_temp leaf key file_offset =
     (let i = split_pos (keys leaf) key 0
      in (copy_range (MAX_KEYS - i) (keys leaf) i (i + 1)
            ((copy_range i (keys leaf) 0 0 (replicate (MAX_KEYS + 1) 0))[i := key]),
          copy_range (MAX_KEYS - i) (file_offsets leaf) i (i + 1)
            ((copy_range i (file_offsets leaf) 0 0 (replicate (MAX_KEYS + 1) 0))[i := file_offset])))"

text \<open>\<open>while (index < parent->num_keys && parent->children[index] != left) index++;\<close>\<close>

function child_slot :: "BPlusTreeNode \<Rightarrow> nat \<Rightarrow> nat \<Rightarrow> nat" where
  "child_slot p left index =
     (if index < num_keys p \<and> children p ! index \<noteq> left then child_slot p left (index + 1) else index)"
  by pat_completeness auto
termination
  by (relation "measure (\<lambda>(p, left, index). num_keys p - index)") auto

text \<open>The temporary arrays of an internal split.\<close>

definition parent_temp :: "BPlusTreeNode \<Rightarrow> nat \<Rightarrow> int \<Rightarrow> nat \<Rightarrow> int list \<times> nat list" where
  "parent_temp p index key right =
     (copy_range (num_keys p - index) (keys p) index (index + 1)
        ((copy_range index (keys p) 0 0 (replicate (MAX_KEYS + 1) 0))[index := key]),
      copy_range (num_keys p - index) (children p) (index + 1) (index + 2)
        ((copy_range index (children p) 0 0 (replicate (MAX_KEYS + 2) 0))
           [index := children p ! index, index + 1 := right]))"

text \<open>Case 1 of \<open>insert_into_parent\<close>: the left node was the root, a new root is created.\<close>

definition new_root_node :: "BPlusTree \<Rightarrow> nat \<Rightarrow> int \<Rightarrow> nat \<Rightarrow> BPlusTree" where
  "new_root_node tree left key right =
     (let c = create_new_node False tree;
          new_root = fst c;
          t1 = upd_node new_root
                 (\<lambda>n. n\<lparr>keys := (keys n)[0 := key],
                         children := (children n)[0 := left, 1 := right],
                         num_keys := 1\<rparr>) (snd c);
          t2 = upd_node left (\<lambda>n. n\<lparr>parent := new_root\<rparr>) t1;
          t3 = upd_node right (\<lambda>n. n\<lparr>parent := new_root\<rparr>) t2
      in t3\<lparr>root := new_root\<rparr>)"

text \<open>
  Case 2b of \<open>insert_into_parent\<close>: the parent \<open>p\<close> is full and is split.  The result is
  the store after the split, the key promoted to the grandparent and the new right node.
  The parent pointers of the children that moved are set in the same order as in the C
  loop; they are other fields than the ones the copying writes.
\<close>

definition split_internal_node :: "BPlusTree \<Rightarrow> nat \<Rightarrow> nat \<Rightarrow> int \<Rightarrow> nat \<Rightarrow> BPlusTree \<times> int \<times> nat" where
  "split_internal_node tree p index key right =
     (let temp = parent_temp (heap tree p) index key right;
          temp_keys = fst temp;
          temp_children = snd temp;
          c = create_new_node False tree;
          new_internal = fst c;
          t1 = upd_node new_internal (\<lambda>n. n\<lparr>parent := parent (heap (snd c) p)\<rparr>) (snd c);
          split_point_key_index = MAX_KEYS div 2;
          k_prime = temp_keys ! split_point_key_index;
          t2 = upd_node p
                 (\<lambda>n. n\<lparr>num_keys := split_point_key_index,
                         keys := copy_range split_point_key_index temp_keys 0 0 (keys n),
                         children := (copy_range split_point_key_index temp_children 0 0 (children n))
                                       [split_point_key_index := temp_children ! split_point_key_index]\<rparr>) t1;
          nn = MAX_KEYS - num_keys (heap t2 p);
          t3 = upd_node new_internal
                 (\<lambda>n. n\<lparr>num_keys := nn,
                         keys := copy_range nn temp_keys (split_point_key_index + 1) 0 (keys n),
                         children := (copy_range nn temp_children (split_point_key_index + 1) 0 (children n))
                                       [nn := temp_children ! (MAX_KEYS + 1)]\<rparr>) t2;
          t4 = fold (set_parent_if new_internal) (take (nn + 1) (children (heap t3 new_internal))) t3
      in (t4, k_prime, new_internal))"

partial_function (option) insert_into_parent :: "BPlusTree \<Rightarrow> nat \<Rightarrow> int \<Rightarrow> nat \<Rightarrow> BPlusTree option" where
  "insert_into_parent tree left key right =
     (if parent (heap tree left) = 0 then Some (new_root_node tree left key right)
      else if num_keys (heap tree (parent (heap tree left))) < MAX_KEYS
      then Some (insert_into_node (parent (heap tree left))
                   (child_slot (heap tree (parent (heap tree left))) left 0) key right tree)
      else
        (let s = split_internal_node tree (parent (heap tree left))
                   (child_slot (heap tree (parent (heap tree left))) left 0) key right
         in insert_into_parent (fst s) (parent (heap tree left)) (fst (snd s)) (snd (snd s))))"

text \<open>The split of a full leaf in \<open>insert_key\<close>: the store after the split and the new right leaf.\<close>

definition split_leaf_node :: "BPlusTree \<Rightarrow> nat \<Rightarrow> int \<Rightarrow> int \<Rightarrow> BPlusTree \<times> nat" where
  "split_leaf_node tree leaf key file_offset =
     (let temp = split_temp (heap tree leaf) key file_offset;
          temp_keys = fst temp;
          temp_offsets = snd temp;
          c = create_new_node True tree;
          new_leaf = fst c;
          t1 = upd_node new_leaf (\<lambda>n. n\<lparr>parent := parent (heap (snd c) leaf)\<rparr>) (snd c);
          split_point = (MAX_KEYS + 1) div 2;
          t2 = upd_node leaf
                 (\<lambda>n. n\<lparr>num_keys := split_point,
                         keys := copy_range split_point temp_keys 0 0 (keys n),
                         file_offsets := copy_range split_point temp_offsets 0 0 (file_offsets n)\<rparr>) t1;
          t3 = upd_node new_leaf
                 (\<lambda>n. n\<lparr>num_keys := (MAX_KEYS + 1) - split_point,
                         keys := copy_range ((MAX_KEYS + 1) - split_point) temp_keys split_point 0 (keys n),
                         file_offsets := copy_range ((MAX_KEYS + 1) - split_point) temp_offsets split_point 0
                                           (file_offsets n)\<rparr>) t2;
          t4 = upd_node new_leaf (\<lambda>n. n\<lparr>next_leaf := next_leaf (heap t3 leaf)\<rparr>) t3;
          t5 = upd_node leaf (\<lambda>n. n\<lparr>next_leaf := new_leaf\<rparr>) t4
      in (t5, new_leaf))"

definition insert_key :: "BPlusTree \<Rightarrow> int \<Rightarrow> int \<Rightarrow> BPlusTree option" where
  "insert_key tree key file_offset =
     (if root tree = 0 then Some tree
      else if is_leaf (heap tree (root tree)) \<and> num_keys (heap tree (root tree)) = 0
      then Some (upd_node (root tree) (insert_into_leaf key file_offset) tree)
      else do {
        leaf \<leftarrow> find_leaf_node (heap tree) (root tree) key;
        if leaf = 0 then Some tree
        else if num_keys (heap tree leaf) < MAX_KEYS
        then Some (upd_node leaf (insert_into_leaf key file_offset) tree)
        else
          (let s = split_leaf_node tree leaf key file_offset
           in insert_into_parent (fst s) leaf (keys (heap (fst s) (snd s)) ! 0) (snd s))
      })"

subsection \<open>Deletion\<close>

text \<open>\<open>for (i = 0; i < leaf->num_keys; i++) if (leaf->keys[i] == key) { key_index = i; break; }\<close>\<close>

function find_key_index :: "BPlusTreeNode \<Rightarrow> int \<Rightarrow> nat \<Rightarrow> nat option" where
  "find_key_index n key i =
     (if i < num_keys n
      then (if keys n ! i = key then Some i else find_key_index n key (i + 1))
      else None)"
  by pat_completeness auto
termination
  by (relation "measure (\<lambda>(n, key, i). num_keys n - i)") auto

text \<open>\<open>while (index < node->num_keys && node->keys[index] < key) index++;\<close>\<close>

function entry_index :: "BPlusTreeNode \<Rightarrow> int \<Rightarrow> nat \<Rightarrow> nat" where
  "entry_index n key index =
     (if index < num_keys n \<and> keys n ! index < key then entry_index n key (index + 1) else index)"
  by pat_completeness auto
termination
  by (relation "measure (\<lambda>(n, key, index). num_keys n - index)") auto

text \<open>
  \<open>while (node_index_in_parent <= parent->num_keys && parent->children[node_index_in_parent] != node)
  node_index_in_parent++;\<close>
\<close>

function node_index :: "BPlusTreeNode \<Rightarrow> nat \<Rightarrow> nat \<Rightarrow> nat" where
  "node_index p node i =
     (if i \<le> num_keys p \<and> children p ! i \<noteq> node then node_index p node (i + 1) else i)"
  by pat_completeness auto
termination
  by (relation "measure (\<lambda>(p, node, i). num_keys p + 1 - i)") auto

text \<open>
  The removal loop of \<open>delete_entry\<close>:
  \<open>for (i = index; i < num_keys - 1; i++) { keys[i] = keys[i + 1]; if (is_leaf) file_offsets[i] = file_offsets[i + 1]; }
  num_keys--;\<close>
\<close>

definition remove_entry :: "nat \<Rightarrow> BPlusTreeNode \<Rightarrow> BPlusTreeNode" where
  "remove_entry index n =
     n\<lparr>keys := shift_down index (num_keys n - 1) (keys n),
       file_offsets := (if is_leaf n then shift_down index (num_keys n - 1) (file_offsets n)
                        else file_offsets n),
       num_keys := num_keys n - 1\<rparr>"

text \<open>
  The root is an internal node without keys: its first child becomes the root
  (the end of \<open>delete_entry\<close>).
\<close>

definition promote_first_child :: "BPlusTree \<Rightarrow> BPlusTree" where
  "promote_first_child tree =
     (let old_root = root tree;
          t1 = tree\<lparr>root := children (heap tree old_root) ! 0\<rparr>;
          t2 = set_parent_if 0 (root t1) t1
      in free_node old_root t2)"

text \<open>Borrowing one entry from the left sibling (in \<open>handle_underflow\<close>).\<close>

definition borrow_from_left :: "BPlusTree \<Rightarrow> nat \<Rightarrow> nat \<Rightarrow> nat \<Rightarrow> BPlusTree" where
  "borrow_from_left tree node p node_index_in_parent =
     (let left_sibling = children (heap tree p) ! (node_index_in_parent - 1);
          k_prime_index = node_index_in_parent - 1;
          t1 = upd_node node
                 (\<lambda>n. if is_leaf n
                       then n\<lparr>keys := shift_up 0 (num_keys n) (keys n),
                               file_offsets := shift_up 0 (num_keys n) (file_offsets n)\<rparr>
                       else n\<lparr>keys := shift_up 0 (num_keys n) (keys n),
                               children := (shift_up 1 (num_keys n + 1) (children n))
                                             [1 := children n ! 0]\<rparr>) tree;
          t2 = (if is_leaf (heap t1 node)
                then
                  (let l = heap t1 left_sibling;
                       u1 = upd_node node
                              (\<lambda>n. n\<lparr>keys := (keys n)[0 := keys l ! (num_keys l - 1)],
                                      file_offsets := (file_offsets n)[0 := file_offsets l ! (num_keys l - 1)]\<rparr>) t1
                   in upd_node p (\<lambda>n. n\<lparr>keys := (keys n)[k_prime_index := keys (heap u1 node) ! 0]\<rparr>) u1)
                else
                  (let u1 = upd_node node (\<lambda>n. n\<lparr>keys := (keys n)[0 := keys (heap t1 p) ! k_prime_index]\<rparr>) t1;
                       l = heap u1 left_sibling;
                       u2 = upd_node node (\<lambda>n. n\<lparr>children := (children n)[0 := children l ! num_keys l]\<rparr>) u1;
                       u3 = set_parent_if node (children (heap u2 node) ! 0) u2;
                       l3 = heap u3 left_sibling
                   in upd_node p (\<lambda>n. n\<lparr>keys := (keys n)[k_prime_index := keys l3 ! (num_keys l3 - 1)]\<rparr>) u3));
          t3 = upd_node left_sibling (\<lambda>n. n\<lparr>num_keys := num_keys n - 1\<rparr>) t2
      in upd_node node (\<lambda>n. n\<lparr>num_keys := num_keys n + 1\<rparr>) t3)"

text \<open>Borrowing one entry from the right sibling (in \<open>handle_underflow\<close>).\<close>

definition borrow_from_right :: "BPlusTree \<Rightarrow> nat \<Rightarrow> nat \<Rightarrow> nat \<Rightarrow> BPlusTree" where
  "borrow_from_right tree node p node_index_in_parent =
     (let right_sibling = children (heap tree p) ! (node_index_in_parent + 1);
          k_prime_index = node_index_in_parent;
          t2 = (if is_leaf (heap tree node)
                then
                  (let r = heap tree right_sibling;
                       u1 = upd_node node
                              (\<lambda>n. n\<lparr>keys := (keys n)[num_keys n := keys r ! 0],
                                      file_offsets := (file_offsets n)[num_keys n := file_offsets r ! 0]\<rparr>) tree;
                       u2 = upd_node p
                              (\<lambda>n. n\<lparr>keys := (keys n)[k_prime_index := keys (heap u1 right_sibling) ! 1]\<rparr>) u1
                   in upd_node right_sibling
                        (\<lambda>n. n\<lparr>keys := shift_down 0 (num_keys n - 1) (keys n),
                                file_offsets := shift_down 0 (num_keys n - 1) (file_offsets n)\<rparr>) u2)
                else
                  (let u1 = upd_node node
                              (\<lambda>n. n\<lparr>keys := (keys n)[num_keys n := keys (heap tree p) ! k_prime_index]\<rparr>) tree;
                       u2 = upd_node node
                              (\<lambda>n. n\<lparr>children := (children n)
                                                     [num_keys n + 1 := children (heap u1 right_sibling) ! 0]\<rparr>) u1;
                       u3 = set_parent_if node (children (heap u2 node) ! (num_keys (heap u2 node) + 1)) u2;
                       u4 = upd_node p
                              (\<lambda>n. n\<lparr>keys := (keys n)[k_prime_index := keys (heap u3 right_sibling) ! 0]\<rparr>) u3
                   in upd_node right_sibling
                        (\<lambda>n. n\<lparr>keys := shift_down 0 (num_keys n - 1) (keys n),
                                children := (shift_down 1 (num_keys n) ((children n)[0 := children n ! 1]))
                                              [num_keys n := 0]\<rparr>) u4));
          t3 = upd_node right_sibling (\<lambda>n. n\<lparr>num_keys := num_keys n - 1\<rparr>) t2
      in upd_node node (\<lambda>n. n\<lparr>num_keys := num_keys n + 1\<rparr>) t3)"

text \<open>
  The body of \<open>merge_nodes\<close> up to \<open>free(right_node)\<close>: the right node's entries move
  into the left node and the separator leaves the parent.  The two nodes are different
  nodes at every call.
\<close>

definition merge_into_left :: "BPlusTree \<Rightarrow> nat \<Rightarrow> nat \<Rightarrow> nat \<Rightarrow> int \<Rightarrow> BPlusTree" where
  "merge_into_left tree left_node right_node k_prime_index k_prime =
     (let p = parent (heap tree left_node);
          t1 = (if is_leaf (heap tree left_node) then tree
                else upd_node left_node
                       (\<lambda>n. n\<lparr>keys := (keys n)[num_keys n := k_prime], num_keys := num_keys n + 1\<rparr>) tree);
          r = heap t1 right_node;
          t2 = upd_node left_node
                 (\<lambda>n. if is_leaf n
                       then n\<lparr>keys := copy_range (num_keys r) (keys r) 0 (num_keys n) (keys n),
                               file_offsets := copy_range (num_keys r) (file_offsets r) 0 (num_keys n)
                                                 (file_offsets n),
                               num_keys := num_keys n + num_keys r\<rparr>
                       else n\<lparr>keys := copy_range (num_keys r) (keys r) 0 (num_keys n) (keys n),
                               children := (copy_range (num_keys r) (children r) 0 (num_keys n) (children n))
                                             [num_keys n + num_keys r := children r ! num_keys r],
                               num_keys := num_keys n + num_keys r\<rparr>) t1;
          t3 = (if is_leaf (heap t2 left_node)
                then upd_node left_node (\<lambda>n. n\<lparr>next_leaf := next_leaf (heap t2 right_node)\<rparr>) t2
                else fold (set_parent_if left_node) (take (num_keys r + 1) (children r)) t2);
          t4 = upd_node p
                 (\<lambda>n. n\<lparr>keys := shift_down k_prime_index (num_keys n - 1) (keys n),
                         children := (shift_down (k_prime_index + 1) (num_keys n) (children n))
                                       [num_keys n := 0],
                         num_keys := num_keys n - 1\<rparr>) t3
      in free_node right_node t4)"

text \<open>The root became an internal node without keys after a merge: the merged node is the new root.\<close>

definition replace_root :: "BPlusTree \<Rightarrow> nat \<Rightarrow> BPlusTree" where
  "replace_root tree left_node =
     (let old_root = root tree;
          t1 = tree\<lparr>root := left_node\<rparr>;
          t2 = upd_node left_node (\<lambda>n. n\<lparr>parent := 0\<rparr>) t1
      in free_node old_root t2)"

text \<open>
  \<open>handle_underflow\<close> and \<open>merge_nodes\<close> call each other in the C program; the call of
  \<open>merge_nodes\<close> is the last action of \<open>handle_underflow\<close>, and the call of
  \<open>handle_underflow\<close> the last action of \<open>merge_nodes\<close>.  The recursive definition unfolds
  \<open>merge_nodes\<close> at its call; \<open>merge_nodes\<close> itself follows.
\<close>

partial_function (option) handle_underflow :: "BPlusTree \<Rightarrow> nat \<Rightarrow> BPlusTree option" where
  "handle_underflow tree node =
     (if node = 0 \<or> node = root tree \<or> num_keys (heap tree node) \<ge> MIN_KEYS then Some tree
      else if parent (heap tree node) = 0 then Some tree
      else
        (let p = parent (heap tree node);
             node_index_in_parent = node_index (heap tree p) node 0
         in
           if node_index_in_parent > num_keys (heap tree p) then Some tree
           else if node_index_in_parent > 0 \<and>
              num_keys (heap tree (children (heap tree p) ! (node_index_in_parent - 1))) > MIN_KEYS
           then Some (borrow_from_left tree node p node_index_in_parent)
           else if node_index_in_parent < num_keys (heap tree p) \<and>
              num_keys (heap tree (children (heap tree p) ! (node_index_in_parent + 1))) > MIN_KEYS
           then Some (borrow_from_right tree node p node_index_in_parent)
           else
             (let left_node = (if node_index_in_parent > 0
                               then children (heap tree p) ! (node_index_in_parent - 1) else node);
                  right_node = (if node_index_in_parent > 0
                                then node else children (heap tree p) ! (node_index_in_parent + 1));
                  k_prime_index = (if node_index_in_parent > 0
                                   then node_index_in_parent - 1 else node_index_in_parent);
                  k_prime = keys (heap tree p) ! k_prime_index;
                  mp = parent (heap tree left_node);
                  t = merge_into_left tree left_node right_node k_prime_index k_prime
              in if mp \<noteq> root t \<and> num_keys (heap t mp) < MIN_KEYS then handle_underflow t mp
                 else if num_keys (heap t (root t)) = 0 \<and> \<not> is_leaf (heap t (root t))
                 then Some (replace_root t left_node)
                 else Some t)))"

definition merge_nodes :: "BPlusTree \<Rightarrow> nat \<Rightarrow> nat \<Rightarrow> nat \<Rightarrow> int \<Rightarrow> BPlusTree option" where
  "merge_nodes tree left_node right_node k_prime_index k_prime =
     (let p = parent (heap tree left_node);
          t = merge_into_left tree left_node right_node k_prime_index k_prime
      in if p \<noteq> root t \<and> num_keys (heap t p) < MIN_KEYS then handle_underflow t p
         else if num_keys (heap t (root t)) = 0 \<and> \<not> is_leaf (heap t (root t))
         then Some (replace_root t left_node)
         else Some t)"

definition delete_entry :: "BPlusTree \<Rightarrow> nat \<Rightarrow> int \<Rightarrow> BPlusTree option" where
  "delete_entry tree node key =
     (let index = entry_index (heap tree node) key 0 in
      if index = num_keys (heap tree node) \<or> keys (heap tree node) ! index \<noteq> key then Some tree
      else
        (let t = upd_node node (remove_entry index) tree in
         if node \<noteq> root t \<and> num_keys (heap t node) < MIN_KEYS then handle_underflow t node
         else if num_keys (heap t (root t)) = 0 \<and> \<not> is_leaf (heap t (root t))
         then Some (promote_first_child t)
         else Some t))"

definition delete_key :: "BPlusTree \<Rightarrow> int \<Rightarrow> BPlusTree option" where
  "delete_key tree key =
     (if root tree = 0 then Some tree
      else do {
        leaf \<leftarrow> find_leaf_node (heap tree) (root tree) key;
        if leaf = 0 then Some tree
        else if find_key_index (heap tree leaf) key 0 = None then Some tree
        else delete_entry tree leaf key
      })"

section \<open>The table layer (database/logical/database.c)\<close>

text \<open>
  A file is its byte string; the file system maps absolute paths to files.  An open
  \<open>FILE *\<close> is the path it was opened on (\<open>None\<close> is the C \<open>NULL\<close>); every operation
  positions the stream before it reads or writes, so the stream position is not part of
  the state, and written bytes reach the file at once.  The calls that can fail in the
  operating system (seek, tell, write, flush, read, open, remove, rename) succeed or
  fail as an environment \<open>ok\<close> says.  A C string argument is a byte string read up to
  its first NUL byte, a \<open>NULL\<close> string pointer is \<open>None\<close>.  The mutex is not modelled:
  every operation runs from lock to unlock without interleaving.
\<close>

definition MAX_TABLES :: nat where
  "MAX_TABLES = 100"

definition MAX_COLUMNS :: nat where
  "MAX_COLUMNS = 100"

definition MAX_ROW_LEN :: nat where
  "MAX_ROW_LEN = 4096"

definition FILENAME_BUF_SIZE :: nat where
  "FILENAME_BUF_SIZE = 256"

definition DELETED_MARKER :: char where
  "DELETED_MARKER = CHR ''#''"

definition NEWLINE :: char where
  "NEWLINE = CHR 0x0A"

definition NUL :: char where
  "NUL = CHR 0x00"

datatype io_call =
    SeekEnd | Tell | WriteMarker | WriteColumn nat | Flush
  | SeekRow | ReadLine | PutDeleted | FlushDeleted
  | OpenCreate | OpenUpdate | MutexInit
  | OpenTemp | WriteTemp | TellTemp | FlushTemp | RemoveOld | RenameTemp | Reopen

record Table =
  table_name :: string
  columns :: "string list"
  column_count :: nat
  primary_index :: BPlusTree
  data_file :: "string option"

record Database =
  db_name :: string
  tables :: "Table list"

subsection \<open>Strings and files\<close>

text \<open>The bytes of a C string: up to the first NUL.\<close>

definition cstr :: "string \<Rightarrow> string" where
  "cstr s = takeWhile (\<lambda>c. c \<noteq> NUL) s"

definition file_content :: "(string \<Rightarrow> string option) \<Rightarrow> string \<Rightarrow> string" where
  "file_content fs path = (case fs path of None \<Rightarrow> [] | Some c \<Rightarrow> c)"

text \<open>Writing bytes at a position: a position beyond the end leaves a hole of NUL bytes.\<close>

definition write_at :: "string \<Rightarrow> nat \<Rightarrow> string \<Rightarrow> string" where
  "write_at content pos bytes =
     take pos content @ replicate (pos - length content) NUL @ bytes @ drop (pos + length bytes) content"

text \<open>
  \<open>fgets(buffer, n, f)\<close> at position \<open>pos\<close>: \<open>NULL\<close> at the end of the file, otherwise
  at most \<open>n - 1\<close> bytes, up to and with the first newline.
\<close>

definition first_line :: "string \<Rightarrow> string" where
  "first_line s =
     (case dropWhile (\<lambda>c. c \<noteq> NEWLINE) s of [] \<Rightarrow> s | _ # _ \<Rightarrow> takeWhile (\<lambda>c. c \<noteq> NEWLINE) s @ [NEWLINE])"

definition fgets :: "nat \<Rightarrow> string \<Rightarrow> nat \<Rightarrow> string option" where
  "fgets n content pos =
     (if length content \<le> pos then None else Some (take (n - 1) (first_line (drop pos content))))"

text \<open>
  The tokens \<open>strtok_r\<close> returns call after call: delimiters are skipped, a token runs up
  to the next delimiter.
\<close>

function tokens :: "(char \<Rightarrow> bool) \<Rightarrow> string \<Rightarrow> string list" where
  "tokens d s =
     (case dropWhile d s of
        [] \<Rightarrow> []
      | c # cs \<Rightarrow> takeWhile (\<lambda>x. \<not> d x) (c # cs) # tokens d (dropWhile (\<lambda>x. \<not> d x) (c # cs)))"
  by pat_completeness auto
termination
proof (relation "measure (\<lambda>(d, s). length s)")
  show "wf (measure (\<lambda>(d, s). length s))" by simp
next
  fix d :: "char \<Rightarrow> bool" and s :: string and c cs
  assume a: "dropWhile d s = c # cs"
  have nd: "\<not> d c" using a by (metis hd_dropWhile list.sel(1) list.discI)
  have "length (dropWhile (\<lambda>x. \<not> d x) (c # cs)) \<le> length cs"
    using nd by (simp add: length_dropWhile_le)
  moreover have "length (c # cs) \<le> length s"
    using a by (metis length_dropWhile_le)
  ultimately show "((d, dropWhile (\<lambda>x. \<not> d x) (c # cs)), (d, s)) \<in> measure (\<lambda>(d, s). length s)"
    by simp
qed

definition row_delim :: "char \<Rightarrow> bool" where
  "row_delim c = (c = CHR ''|'' \<or> c = NEWLINE)"

text \<open>
  The sanitized copy of a column value: \<open>strncpy\<close> of at most \<open>MAX_ROW_LEN - 1\<close> bytes of
  the value (the empty string for \<open>NULL\<close>), then every \<open>'|'\<close>, newline and \<open>'#'\<close> replaced
  by \<open>'_'\<close>.
\<close>

definition sanitize :: "string option \<Rightarrow> string" where
  "sanitize v =
     map (\<lambda>c. if c = CHR ''|'' \<or> c = NEWLINE \<or> c = DELETED_MARKER then CHR ''_'' else c)
       (take (MAX_ROW_LEN - 1) (cstr (case v of None \<Rightarrow> [] | Some s \<Rightarrow> s)))"

text \<open>
  The loop that writes the columns: column \<open>i\<close> is written as its sanitized value and
  \<open>'|'\<close>, or a newline after the last column.  The result says whether every write
  succeeded and what the file holds then.
\<close>

function write_columns ::
  "(io_call \<Rightarrow> bool) \<Rightarrow> string option list \<Rightarrow> nat \<Rightarrow> nat \<Rightarrow> string \<Rightarrow> bool \<times> string" where
  "write_columns ok vals n i content =
     (if i < n
      then (if ok (WriteColumn i)
            then write_columns ok vals n (i + 1)
                   (content @ sanitize (vals ! i) @ [if i = n - 1 then NEWLINE else CHR ''|''])
            else (False, content))
      else (True, content))"
  by pat_completeness auto
termination
  by (relation "measure (\<lambda>(ok, vals, n, i, content). n - i)") auto

subsection \<open>Row operations\<close>

text \<open>The result of a row operation: the returned value, the files and the table afterwards.\<close>

definition insert_row ::
  "(io_call \<Rightarrow> bool) \<Rightarrow> (string \<Rightarrow> string option) \<Rightarrow> Table \<Rightarrow> int \<Rightarrow> string option list
     \<Rightarrow> (int \<times> (string \<Rightarrow> string option) \<times> Table) option" where
  "insert_row ok fs table primary_key vals =
     (case data_file table of
        None \<Rightarrow> Some (- 1, fs, table)
      | Some path \<Rightarrow> do {
          found \<leftarrow> search_key (primary_index table) primary_key;
          if found \<noteq> - 1 then Some (- 1, fs, table)
          else if \<not> ok SeekEnd then Some (- 1, fs, table)
          else if \<not> ok Tell then Some (- 1, fs, table)
          else if \<not> ok WriteMarker then Some (- 1, fs, table)
          else
            (let current_offset = int (length (file_content fs path));
                 w = write_columns ok vals (column_count table) 0 (file_content fs path @ '' '');
                 fs1 = fs(path \<mapsto> snd w)
             in if \<not> fst w then Some (- 1, fs1, table)
                else if \<not> ok Flush then Some (- 1, fs1, table)
                else do {
                  index \<leftarrow> insert_key (primary_index table) primary_key current_offset;
                  Some (current_offset, fs1, table\<lparr>primary_index := index\<rparr>)
                })
        })"

definition read_row ::
  "(io_call \<Rightarrow> bool) \<Rightarrow> (string \<Rightarrow> string option) \<Rightarrow> Table \<Rightarrow> int \<Rightarrow> string list option option" where
  "read_row ok fs table primary_key =
     (case data_file table of
        None \<Rightarrow> Some None
      | Some path \<Rightarrow> do {
          file_offset \<leftarrow> search_key (primary_index table) primary_key;
          if file_offset = - 1 then Some None
          else if file_offset < 0 \<or> \<not> ok SeekRow then Some None
          else if \<not> ok ReadLine then Some None
          else
            (case fgets MAX_ROW_LEN (file_content fs path) (nat file_offset) of
               None \<Rightarrow> Some None
             | Some buffer \<Rightarrow>
                 (case cstr buffer of
                    [] \<Rightarrow> Some None
                  | marker # line_start \<Rightarrow>
                      if marker = DELETED_MARKER then Some None
                      else if marker \<noteq> CHR '' '' then Some None
                      else
                        (let row_data = take (column_count table) (tokens row_delim line_start)
                         in if length row_data \<noteq> column_count table then Some None
                            else Some (Some row_data))))
        })"

definition delete_row ::
  "(io_call \<Rightarrow> bool) \<Rightarrow> (string \<Rightarrow> string option) \<Rightarrow> Table \<Rightarrow> int
     \<Rightarrow> (int \<times> (string \<Rightarrow> string option) \<times> Table) option" where
  "delete_row ok fs table primary_key =
     (case data_file table of
        None \<Rightarrow> Some (- 1, fs, table)
      | Some path \<Rightarrow> do {
          file_offset \<leftarrow> search_key (primary_index table) primary_key;
          if file_offset = - 1 then Some (- 1, fs, table)
          else if file_offset < 0 \<or> \<not> ok SeekRow then Some (- 1, fs, table)
          else if \<not> ok PutDeleted then Some (- 1, fs, table)
          else
            (let fs1 = fs(path \<mapsto> write_at (file_content fs path) (nat file_offset) [DELETED_MARKER])
             in if \<not> ok FlushDeleted then Some (- 1, fs1, table)
                else do {
                  index \<leftarrow> delete_key (primary_index table) primary_key;
                  Some (0, fs1, table\<lparr>primary_index := index\<rparr>)
                })
        })"

definition update_row ::
  "(io_call \<Rightarrow> bool) \<Rightarrow> (string \<Rightarrow> string option) \<Rightarrow> Table \<Rightarrow> int \<Rightarrow> string option list
     \<Rightarrow> (int \<times> (string \<Rightarrow> string option) \<times> Table) option" where
  "update_row ok fs table primary_key new_values =
     (case data_file table of
        None \<Rightarrow> Some (- 1, fs, table)
      | Some path \<Rightarrow> do {
          old_offset \<leftarrow> search_key (primary_index table) primary_key;
          if old_offset = - 1 then Some (- 1, fs, table)
          else if old_offset < 0 \<or> \<not> ok SeekRow then Some (- 1, fs, table)
          else if \<not> ok PutDeleted then Some (- 1, fs, table)
          else
            (let fs1 = fs(path \<mapsto> write_at (file_content fs path) (nat old_offset) [DELETED_MARKER])
             in if \<not> ok FlushDeleted then Some (- 1, fs1, table)
                else if \<not> ok SeekEnd then Some (- 1, fs1, table)
                else if \<not> ok Tell then Some (- 1, fs1, table)
                else if \<not> ok WriteMarker then Some (- 1, fs1, table)
                else
                  (let new_offset = int (length (file_content fs1 path));
                       w = write_columns ok new_values (column_count table) 0 (file_content fs1 path @ '' '');
                       fs2 = fs1(path \<mapsto> snd w)
                   in if \<not> fst w then Some (- 1, fs2, table)
                      else if \<not> ok Flush then Some (- 1, fs2, table)
                      else do {
                        index1 \<leftarrow> delete_key (primary_index table) primary_key;
                        index2 \<leftarrow> insert_key index1 primary_key new_offset;
                        Some (new_offset, fs2, table\<lparr>primary_index := index2\<rparr>)
                      }))
        })"

subsection \<open>Creating a table\<close>

text \<open>
  Relative paths are resolved against the working directory.  \<open>snprintf\<close> into a buffer of
  \<open>FILENAME_BUF_SIZE\<close> bytes keeps \<open>FILENAME_BUF_SIZE - 1\<close> bytes.  Directories are not
  modelled: \<open>mkdir -p\<close> always leaves the directory in place, and \<open>getcwd\<close> succeeds.
  The column names and their count are one list.
\<close>

definition abs_path :: "string \<Rightarrow> string \<Rightarrow> string" where
  "abs_path cwd p = (case p of [] \<Rightarrow> cwd @ ''/'' | c # cs \<Rightarrow> if c = CHR ''/'' then p else cwd @ ''/'' @ p)"

definition join_project_path :: "string \<Rightarrow> string \<Rightarrow> string" where
  "join_project_path cwd path = take (FILENAME_BUF_SIZE - 1) (cwd @ ''/'' @ path)"

definition tolower :: "char \<Rightarrow> char" where
  "tolower c =
     (case map_of (zip ''ABCDEFGHIJKLMNOPQRSTUVWXYZ'' ''abcdefghijklmnopqrstuvwxyz'') c of
        None \<Rightarrow> c
      | Some l \<Rightarrow> l)"

definition data_filename :: "string \<Rightarrow> string \<Rightarrow> string" where
  "data_filename cwd name =
     (let lowercase_name = map tolower (take (FILENAME_BUF_SIZE - 1) (cstr name));
          scaffolded_path = join_project_path cwd ''scaffolded_resources'';
          resource_dir = take (FILENAME_BUF_SIZE - 1) (scaffolded_path @ ''/'' @ lowercase_name)
      in abs_path cwd (take (FILENAME_BUF_SIZE - 1) (resource_dir @ ''/'' @ lowercase_name @ ''.dat'')))"

definition create_table ::
  "(io_call \<Rightarrow> bool) \<Rightarrow> string \<Rightarrow> (string \<Rightarrow> string option) \<Rightarrow> Database \<Rightarrow> string \<Rightarrow> string list
     \<Rightarrow> Table option \<times> (string \<Rightarrow> string option) \<times> Database" where
  "create_table ok cwd fs db name cols =
     (if length (tables db) \<ge> MAX_TABLES then (None, fs, db)
      else if cstr name = [] then (None, fs, db)
      else if cols = [] \<or> length cols > MAX_COLUMNS then (None, fs, db)
      else if list_ex (\<lambda>t. table_name t = cstr name) (tables db) then (None, fs, db)
      else if list_ex (\<lambda>c. cstr c = []) cols then (None, fs, db)
      else
        (let filename = data_filename cwd name in
         if \<not> ok OpenCreate then (None, fs, db)
         else
           (let fs1 = fs(filename \<mapsto> file_content fs filename) in
            if \<not> ok OpenUpdate then (None, fs1, db)
            else if \<not> ok MutexInit then (None, fs1, db)
            else
              (let table = \<lparr>table_name = cstr name, columns = map cstr cols,
                            column_count = length cols, primary_index = initialize_tree,
                            data_file = Some filename\<rparr>
               in (Some table, fs1, db\<lparr>tables := tables db @ [table]\<rparr>)))))"

subsection \<open>Compaction\<close>

text \<open>
  \<open>atoi\<close>: white space, an optional sign, then decimal digits.  The value is an unbounded
  integer (the C function is undefined when it does not fit an \<open>int\<close>).
\<close>

definition isspace :: "char \<Rightarrow> bool" where
  "isspace c = (c = CHR '' '' \<or> (9 \<le> (of_char c :: nat) \<and> (of_char c :: nat) \<le> 13))"

definition isdigit :: "char \<Rightarrow> bool" where
  "isdigit c = (48 \<le> (of_char c :: nat) \<and> (of_char c :: nat) \<le> 57)"

definition digits_value :: "string \<Rightarrow> int" where
  "digits_value s = foldl (\<lambda>a c. 10 * a + (int (of_char c) - 48)) 0 (takeWhile isdigit s)"

definition atoi :: "string \<Rightarrow> int" where
  "atoi s =
     (case dropWhile isspace s of
        [] \<Rightarrow> 0
      | c # cs \<Rightarrow>
          if c = CHR ''-'' then - digits_value cs
          else if c = CHR ''+'' then digits_value cs
          else digits_value (c # cs))"

lemma fgets_progress:
  "fgets MAX_ROW_LEN content pos = Some buffer \<Longrightarrow>
     length content - (pos + length buffer) < length content - pos"
  by (auto simp: fgets_def first_line_def MAX_ROW_LEN_def split: if_splits list.splits)

text \<open>
  The loop over the lines of the old file.  The state is the position in the old file, the
  bytes written to the temporary file, \<open>current_write_offset\<close> and the new index; the
  result says whether the loop ran to the end of the old file without a failed write or
  \<open>ftell\<close>.
\<close>

function compact_rows ::
  "(io_call \<Rightarrow> bool) \<Rightarrow> string \<Rightarrow> nat \<Rightarrow> string \<Rightarrow> int \<Rightarrow> BPlusTree
     \<Rightarrow> (bool \<times> string \<times> BPlusTree) option" where
  "compact_rows ok content pos temp current_write_offset new_index =
     (case fgets MAX_ROW_LEN content pos of
        None \<Rightarrow> Some (True, temp, new_index)
      | Some buffer \<Rightarrow>
          (case cstr buffer of
             [] \<Rightarrow> compact_rows ok content (pos + length buffer) temp current_write_offset new_index
           | marker # rest \<Rightarrow>
               if marker \<noteq> DELETED_MARKER \<and> marker = CHR '' ''
               then
                 (case tokens (\<lambda>c. c = CHR ''|'') (take (MAX_ROW_LEN - 1) rest) of
                    [] \<Rightarrow> compact_rows ok content (pos + length buffer) temp current_write_offset new_index
                  | first_col # others \<Rightarrow>
                      if \<not> ok WriteTemp then Some (False, temp, new_index)
                      else
                        (case insert_key new_index (atoi first_col) current_write_offset of
                           None \<Rightarrow> None
                         | Some index \<Rightarrow>
                             if \<not> ok TellTemp then Some (False, temp @ cstr buffer, index)
                             else compact_rows ok content (pos + length buffer) (temp @ cstr buffer)
                                    (int (length (temp @ cstr buffer))) index))
               else compact_rows ok content (pos + length buffer) temp current_write_offset new_index))"
  by pat_completeness auto
termination
  by (relation "measure (\<lambda>(ok, content, pos, temp, off, new_index). length content - pos)")
    (simp_all add: fgets_progress del: tokens.simps)

definition compact_finish ::
  "(io_call \<Rightarrow> bool) \<Rightarrow> string \<Rightarrow> (string \<Rightarrow> string option) \<Rightarrow> Table \<Rightarrow> string
     \<Rightarrow> bool \<times> string \<times> BPlusTree \<Rightarrow> (string \<Rightarrow> string option) \<times> Table" where
  "compact_finish ok cwd fs1 table temp_filename r =
     (if \<not> fst r then (fs1(temp_filename := None), table)
      else if \<not> ok FlushTemp then (fs1(temp_filename := None), table)
      else
        (let fs2 = fs1(temp_filename \<mapsto> fst (snd r));
             table1 = table\<lparr>data_file := None\<rparr>;
             old_filename = abs_path cwd (take (FILENAME_BUF_SIZE - 1) (table_name table @ ''.dat''))
         in if fs2 old_filename = None \<or> \<not> ok RemoveOld then (fs2(temp_filename := None), table1)
            else
              (let fs3 = fs2(old_filename := None) in
               if fs3 temp_filename = None \<or> \<not> ok RenameTemp then (fs3, table1)
               else
                 (let fs4 = fs3(old_filename := fs3 temp_filename, temp_filename := None) in
                  if \<not> ok Reopen then (fs4, table1)
                  else (fs4, table1\<lparr>data_file := Some old_filename, primary_index := snd (snd r)\<rparr>)))))"

text \<open>
  The old file is read as it is once the temporary file has been opened (and so emptied)
  under its own name.
\<close>

definition compact_table ::
  "(io_call \<Rightarrow> bool) \<Rightarrow> string \<Rightarrow> (string \<Rightarrow> string option) \<Rightarrow> Table
     \<Rightarrow> ((string \<Rightarrow> string option) \<times> Table) option" where
  "compact_table ok cwd fs table =
     (case data_file table of
        None \<Rightarrow> Some (fs, table)
      | Some path \<Rightarrow>
          (let temp_filename = abs_path cwd (take (FILENAME_BUF_SIZE - 1) (table_name table @ ''.tmp'')) in
           if \<not> ok OpenTemp then Some (fs, table)
           else
             (let fs1 = fs(temp_filename \<mapsto> []) in
              case compact_rows ok (file_content fs1 path) 0 [] 0 initialize_tree of
                None \<Rightarrow> None
              | Some r \<Rightarrow> Some (compact_finish ok cwd fs1 table temp_filename r))))"

section \<open>The row operations on one table\<close>

declare tokens.simps [simp del] write_columns.simps [simp del] compact_rows.simps [simp del]

subsection \<open>The line written for a row\<close>

text \<open>
  The bytes the column loop writes when every write succeeds: the sanitized values, \<open>'|'\<close>
  between them, a newline after the last.  With the marker byte in front this is the
  line of a row.
\<close>

fun row_body :: "string option list \<Rightarrow> string" where
  "row_body [] = []"
| "row_body [v] = sanitize v @ [NEWLINE]"
| "row_body (v # w # ws) = sanitize v @ [CHR ''|''] @ row_body (w # ws)"

definition encode_row :: "string option list \<Rightarrow> string" where
  "encode_row vals = CHR '' '' # row_body vals"

definition io_ok :: "(io_call \<Rightarrow> bool) \<Rightarrow> nat \<Rightarrow> bool" where
  "io_ok ok n = (ok SeekEnd \<and> ok Tell \<and> ok WriteMarker \<and> (\<forall>i<n. ok (WriteColumn i)) \<and> ok Flush)"

definition truncate_value :: "string option \<Rightarrow> string option" where
  "truncate_value v = (case v of None \<Rightarrow> Some [] | Some s \<Rightarrow> Some (take (MAX_ROW_LEN - 1) (cstr s)))"




lemma write_columns_ok:
  "(\<forall>i < length pre + length vs. ok (WriteColumn i)) \<Longrightarrow>
   write_columns ok (pre @ vs) (length pre + length vs) (length pre) c = (True, c @ row_body vs)"
proof (induction vs arbitrary: pre c rule: row_body.induct)
  case 1
  then show ?case by (simp add: write_columns.simps)
next
  case (2 v)
  then show ?case
    by (simp add: write_columns.simps[of _ _ _ "length pre"] write_columns.simps[of _ _ _ "Suc (length pre)"])
next
  case (3 v w ws)
  have "write_columns ok ((pre @ [v]) @ w # ws) (length (pre @ [v]) + length (w # ws)) (length (pre @ [v])) (c @ sanitize v @ [CHR ''|''])
        = (True, (c @ sanitize v @ [CHR ''|'']) @ row_body (w # ws))"
    using 3(2) by (intro 3(1)) simp
  then show ?case using 3(2)
    by (simp add: write_columns.simps[of _ _ _ "length pre"])
qed

lemma write_columns_all:
  "(\<forall>i < length vals. ok (WriteColumn i)) \<Longrightarrow>
   write_columns ok vals (length vals) 0 c = (True, c @ row_body vals)"
  using write_columns_ok[of "[]" vals ok c] by simp

lemma write_columns_fail:
  "\<not> (\<forall>j < n. i \<le> j \<longrightarrow> ok (WriteColumn j)) \<Longrightarrow> fst (write_columns ok vals n i c) = False"
proof (induction ok vals n i c rule: write_columns.induct)
  case (1 ok vals n i content)
  show ?case
  proof (cases "i < n \<and> ok (WriteColumn i)")
    case True
    have "\<not> (\<forall>j<n. i + 1 \<le> j \<longrightarrow> ok (WriteColumn j))"
      using 1(2) True by (metis Suc_eq_plus1 Suc_leI le_neq_implies_less)
    then show ?thesis using 1(1) True by (simp add: write_columns.simps[of ok vals n i])
  next
    case False
    then show ?thesis using 1(2) by (auto simp add: write_columns.simps[of ok vals n i])
  qed
qed



lemma length_sanitize: "length (sanitize v) \<le> MAX_ROW_LEN - 1"
  by (simp add: sanitize_def)






lemma tokens_Nil: "tokens d [] = []"
  by (simp add: tokens.simps)

lemma tokens_dropWhile: "tokens d (dropWhile d s) = tokens d s"
  by (simp add: tokens.simps[of d s] tokens.simps[of d "dropWhile d s"])

lemma tokens_delim: "d e \<Longrightarrow> tokens d (e # s) = tokens d s"
  using tokens_dropWhile[of d "e # s"] tokens_dropWhile[of d s] by simp

lemma tokens_token:
  assumes "x \<noteq> []" and "\<forall>c\<in>set x. \<not> d c" and "d e"
  shows "tokens d (x @ e # s) = x # tokens d s"
proof -
  obtain a t where t: "x @ e # s = a # t" and a: "\<not> d a"
    using assms(1,2) by (cases x) auto
  have 2: "takeWhile (\<lambda>c. \<not> d c) (x @ e # s) = x"
    using assms(2,3) by (simp add: takeWhile_append2)
  have 3: "dropWhile (\<lambda>c. \<not> d c) (x @ e # s) = e # s"
    using assms(2,3) by (simp add: dropWhile_append2)
  have "tokens d (a # t) = takeWhile (\<lambda>c. \<not> d c) (a # t) # tokens d (dropWhile (\<lambda>c. \<not> d c) (a # t))"
    using a by (simp add: tokens.simps[of d "a # t"])
  then have "tokens d (x @ e # s) = x # tokens d (e # s)"
    unfolding t[symmetric] 2 3 .
  then show ?thesis using assms(3) by (simp add: tokens_delim)
qed

lemma sanitize_no_delim: "c \<in> set (sanitize v) \<Longrightarrow> \<not> row_delim c \<and> c \<noteq> NUL \<and> c \<noteq> DELETED_MARKER"
  by (auto simp: sanitize_def row_delim_def cstr_def NUL_def NEWLINE_def DELETED_MARKER_def
      dest!: in_set_takeD set_takeWhileD)

lemma tokens_row_body:
  "\<forall>v\<in>set vals. sanitize v \<noteq> [] \<Longrightarrow> tokens row_delim (row_body vals) = map sanitize vals"
proof (induction vals rule: row_body.induct)
  case 1
  then show ?case by (simp add: tokens_Nil)
next
  case (2 v)
  have "tokens row_delim (sanitize v @ NEWLINE # []) = sanitize v # tokens row_delim []"
    using 2 sanitize_no_delim[of _ v] by (intro tokens_token) (auto simp: row_delim_def)
  then show ?case by (simp add: tokens_Nil)
next
  case (3 v w ws)
  have "tokens row_delim (sanitize v @ CHR ''|'' # row_body (w # ws)) = sanitize v # tokens row_delim (row_body (w # ws))"
    using 3(2) sanitize_no_delim[of _ v] by (intro tokens_token) (auto simp: row_delim_def)
  then show ?case using 3 by simp
qed

lemma row_body_chars: "c \<in> set (row_body vals) \<Longrightarrow> c \<noteq> NUL \<and> c \<noteq> DELETED_MARKER"
proof (induction vals rule: row_body.induct)
  case 1
  then show ?case by simp
next
  case (2 v)
  then show ?case using sanitize_no_delim[of c v] by (auto simp: NUL_def NEWLINE_def DELETED_MARKER_def)
next
  case (3 v w ws)
  then show ?case using sanitize_no_delim[of c v] by (auto simp: NUL_def DELETED_MARKER_def)
qed

lemma row_body_line:
  "vals \<noteq> [] \<Longrightarrow> \<exists>body. row_body vals = body @ [NEWLINE] \<and> NEWLINE \<notin> set body"
proof (induction vals rule: row_body.induct)
  case 1
  then show ?case by simp
next
  case (2 v)
  show ?case using sanitize_no_delim[of NEWLINE v] by (auto simp: row_delim_def)
next
  case (3 v w ws)
  then obtain body where b: "row_body (w # ws) = body @ [NEWLINE]" "NEWLINE \<notin> set body" by auto
  have "row_body (v # w # ws) = (sanitize v @ CHR ''|'' # body) @ [NEWLINE]" using b by simp
  moreover have "NEWLINE \<notin> set (sanitize v @ CHR ''|'' # body)"
    using b sanitize_no_delim[of NEWLINE v] by (auto simp: row_delim_def NEWLINE_def)
  ultimately show ?case by blast
qed

lemma first_line_newline:
  "NEWLINE \<notin> set body \<Longrightarrow> first_line (body @ NEWLINE # rest) = body @ [NEWLINE]"
proof -
  assume a: "NEWLINE \<notin> set body"
  have 1: "dropWhile (\<lambda>c. c \<noteq> NEWLINE) (body @ NEWLINE # rest) = NEWLINE # rest"
    using a by (subst dropWhile_append2) auto
  have 2: "takeWhile (\<lambda>c. c \<noteq> NEWLINE) (body @ NEWLINE # rest) = body"
    using a by (subst takeWhile_append2) auto
  show ?thesis by (simp add: first_line_def 1 2)
qed

lemma fgets_appended_row:
  assumes "vals \<noteq> []" and "length (encode_row vals) \<le> MAX_ROW_LEN - 1"
  shows "fgets MAX_ROW_LEN (c @ encode_row vals) (length c) = Some (encode_row vals)"
proof -
  obtain body where b: "row_body vals = body @ [NEWLINE]" "NEWLINE \<notin> set body"
    using row_body_line[OF assms(1)] by auto
  have "first_line (encode_row vals) = encode_row vals"
    using first_line_newline[of "CHR '' '' # body" "[]"] b
    by (simp add: encode_row_def NEWLINE_def)
  then show ?thesis using assms(2) by (simp add: fgets_def encode_row_def)
qed

lemma cstr_encode_row: "cstr (encode_row vals) = encode_row vals"
  unfolding cstr_def
  by (rule takeWhile_eq_all_conv[THEN iffD2]) (auto simp: encode_row_def NUL_def dest: row_body_chars)

lemma read_row_appended:
  assumes "data_file table = Some path"
    and "search_key (primary_index table) k = Some (int (length c))"
    and "file_content fs path = c @ encode_row vals"
    and "length vals = column_count table" and "vals \<noteq> []"
    and "\<forall>v\<in>set vals. sanitize v \<noteq> []"
    and "length (encode_row vals) \<le> MAX_ROW_LEN - 1"
    and "ok SeekRow" and "ok ReadLine"
  shows "read_row ok fs table k = Some (Some (map sanitize vals))"
proof -
  have "cstr (encode_row vals) = CHR '' '' # row_body vals"
    using cstr_encode_row[of vals] by (simp add: encode_row_def)
  then show ?thesis
    using assms fgets_appended_row[OF assms(5,7), of c] tokens_row_body[OF assms(6)]
    by (simp add: read_row_def DELETED_MARKER_def)
qed



section \<open>The array loops in closed form\<close>

lemma copy_range_Suc:
  "copy_range (Suc n) src s d dst = (copy_range n src s d dst)[d + n := src ! (s + n)]"
  by (simp add: copy_range_def)

lemma length_copy_range [simp]: "length (copy_range n src s d dst) = length dst"
  by (induction n) (simp_all add: copy_range_Suc, simp add: copy_range_def)

lemma nth_copy_range:
  "d + n \<le> length dst \<Longrightarrow>
   copy_range n src s d dst ! j = (if d \<le> j \<and> j < d + n then src ! (s + (j - d)) else dst ! j)"
proof (induction n)
  case 0
  then show ?case by (auto simp add: copy_range_def)
next
  case (Suc n)
  then show ?case
    by (auto simp add: copy_range_Suc nth_list_update less_Suc_eq)
qed

lemma shift_up_Suc:
  "lo \<le> hi \<Longrightarrow> shift_up lo (Suc hi) a = shift_up lo hi (a[Suc hi := a ! hi])"
  by (simp add: shift_up_def)

lemma shift_up_same: "hi \<le> lo \<Longrightarrow> shift_up lo hi a = a"
  by (simp add: shift_up_def)

lemma length_shift_up [simp]: "length (shift_up lo hi a) = length a"
proof (induction hi arbitrary: a)
  case 0
  then show ?case by (simp add: shift_up_def)
next
  case (Suc hi)
  then show ?case by (cases "lo \<le> hi") (simp_all add: shift_up_Suc shift_up_same)
qed

lemma nth_shift_up:
  "hi < length a \<Longrightarrow>
   shift_up lo hi a ! j = (if lo < j \<and> j \<le> hi then a ! (j - 1) else a ! j)"
proof (induction hi arbitrary: a)
  case 0
  then show ?case by (simp add: shift_up_def)
next
  case (Suc hi)
  show ?case
  proof (cases "lo \<le> hi")
    case True
    have "shift_up lo hi (a[Suc hi := a ! hi]) ! j
          = (if lo < j \<and> j \<le> hi then (a[Suc hi := a ! hi]) ! (j - 1) else (a[Suc hi := a ! hi]) ! j)"
      using Suc.prems by (intro Suc.IH) simp
    then show ?thesis using True Suc.prems
      by (auto simp add: shift_up_Suc nth_list_update)
  next
    case False
    then show ?thesis by (auto simp add: shift_up_same)
  qed
qed

lemma shift_down_Suc:
  "lo \<le> hi \<Longrightarrow> shift_down lo (Suc hi) a = (shift_down lo hi a)[hi := shift_down lo hi a ! Suc hi]"
  by (simp add: shift_down_def)

lemma shift_down_same: "hi \<le> lo \<Longrightarrow> shift_down lo hi a = a"
  by (simp add: shift_down_def)

lemma length_shift_down [simp]: "length (shift_down lo hi a) = length a"
proof (induction hi)
  case 0
  then show ?case by (simp add: shift_down_def)
next
  case (Suc hi)
  then show ?case by (cases "lo \<le> hi") (simp_all add: shift_down_Suc shift_down_same)
qed

lemma nth_shift_down:
  "hi < length a \<Longrightarrow>
   shift_down lo hi a ! j = (if lo \<le> j \<and> j < hi then a ! (j + 1) else a ! j)"
proof (induction hi arbitrary: j)
  case 0
  then show ?case by (simp add: shift_down_def)
next
  case (Suc hi)
  show ?case
  proof (cases "lo \<le> hi")
    case True
    have 1: "shift_down lo hi a ! Suc hi = a ! Suc hi"
      using Suc.prems Suc.IH[of "Suc hi"] by simp
    have 2: "shift_down lo hi a ! j = (if lo \<le> j \<and> j < hi then a ! (j + 1) else a ! j)"
      using Suc.prems by (intro Suc.IH) simp
    show ?thesis using True Suc.prems 1 2
      by (auto simp add: shift_down_Suc nth_list_update)
  next
    case False
    then show ?thesis by (auto simp add: shift_down_same)
  qed
qed

section \<open>Evaluation on concrete inputs\<close>

lemma Let_weak_cong: "s = s' \<Longrightarrow> Let s f = Let s' f"
  by simp

lemma bind_weak_cong: "x = y \<Longrightarrow> Option.bind x f = Option.bind y f"
  by simp

lemma rep4: "replicate 4 x = [x, x, x, x]"
  by (simp add: numeral_eq_Suc)

lemma rep5: "replicate 5 x = [x, x, x, x, x]"
  by (simp add: numeral_eq_Suc)

lemma rep6: "replicate 6 x = [x, x, x, x, x, x]"
  by (simp add: numeral_eq_Suc)

lemmas tree_eval = insert_key_def search_key_def find_leaf_node.simps insert_into_parent.simps upd_node_def
  create_new_node_def initialize_tree_def empty_node_def MAX_KEYS_def MIN_KEYS_def Let_def split_temp_def
  parent_temp_def insert_into_leaf_def insert_into_node_def set_parent_if_def new_root_node_def
  split_internal_node_def split_leaf_node_def shift_up_def shift_down_def copy_range_def free_node_def
  remove_entry_def promote_first_child_def borrow_from_left_def borrow_from_right_def merge_into_left_def
  replace_root_def handle_underflow.simps merge_nodes_def delete_entry_def delete_key_def
  rep4 rep5 rep6 upt_conv_Cons numeral_2_eq_2[symmetric]

lemmas table_eval = insert_row_def read_row_def delete_row_def update_row_def compact_table_def
  compact_finish_def create_table_def data_filename_def join_project_path_def abs_path_def tolower_def
  write_at_def fgets_def first_line_def cstr_def sanitize_def row_delim_def
  MAX_ROW_LEN_def MAX_TABLES_def MAX_COLUMNS_def FILENAME_BUF_SIZE_def DELETED_MARKER_def NEWLINE_def
  NUL_def tokens.simps write_columns.simps compact_rows.simps atoi_def isspace_def isdigit_def
  digits_value_def Let_def

lemmas eval_cong = Let_weak_cong bind_weak_cong

subsection \<open>The scenario of the specification\<close>

text \<open>
  Table \<open>book\<close> with the columns \<open>id\<close> and \<open>title\<close> is created in an empty directory
  \<open>/srv\<close> of a system whose calls all succeed; rows 1 and 2 are inserted and row 1 is
  deleted.
\<close>

definition all_ok :: "io_call \<Rightarrow> bool" where
  "all_ok c = True"

definition no_files :: "string \<Rightarrow> string option" where
  "no_files p = None"

definition library :: Database where
  "library = \<lparr>db_name = ''library'', tables = []\<rparr>"

definition book_dat :: string where
  "book_dat = ''/srv/scaffolded_resources/book/book.dat''"

definition book :: Table where
  "book = \<lparr>table_name = ''book'', columns = [''id'', ''title''], column_count = 2,
            primary_index = initialize_tree, data_file = Some book_dat\<rparr>"

definition index1 :: BPlusTree where
  "index1 = the (insert_key initialize_tree 1 0)"

definition index2 :: BPlusTree where
  "index2 = the (insert_key index1 2 8)"

definition index3 :: BPlusTree where
  "index3 = the (delete_key index2 1)"

definition book1 :: Table where
  "book1 = book\<lparr>primary_index := index1\<rparr>"

definition book2 :: Table where
  "book2 = book\<lparr>primary_index := index2\<rparr>"

definition book3 :: Table where
  "book3 = book\<lparr>primary_index := index3\<rparr>"

definition files :: "string \<Rightarrow> string \<Rightarrow> string option" where
  "files content = no_files(book_dat \<mapsto> content)"

lemma book_created:
  "create_table all_ok ''/srv'' no_files library ''book'' [''id'', ''title'']
     = (Some book, files [], library\<lparr>tables := [book]\<rparr>)"
  by (simp add: table_eval file_content_def all_ok_def library_def book_def book_dat_def files_def no_files_def)

lemma index1_inserted: "insert_key initialize_tree 1 0 = Some index1"
  by (simp add: index1_def tree_eval cong: eval_cong)

lemma index1_eq:
  "index1 = initialize_tree\<lparr>heap := (heap initialize_tree)
              (1 := (heap initialize_tree 1)\<lparr>keys := [1, 0, 0, 0], file_offsets := [0, 0, 0, 0], num_keys := 1\<rparr>)\<rparr>"
  by (simp add: index1_def tree_eval cong: eval_cong)

lemma index2_inserted: "insert_key index1 2 8 = Some index2"
  by (simp add: index2_def index1_eq tree_eval cong: eval_cong)

lemma index2_eq:
  "index2 = initialize_tree\<lparr>heap := (heap initialize_tree)
              (1 := (heap initialize_tree 1)\<lparr>keys := [1, 2, 0, 0], file_offsets := [0, 8, 0, 0], num_keys := 2\<rparr>)\<rparr>"
  by (simp add: index2_def index1_eq tree_eval cong: eval_cong)

lemma index3_deleted: "delete_key index2 1 = Some index3"
  by (simp add: index3_def index2_eq tree_eval cong: eval_cong)

lemma index3_eq:
  "index3 = initialize_tree\<lparr>heap := (heap initialize_tree)
              (1 := (heap initialize_tree 1)\<lparr>keys := [2, 2, 0, 0], file_offsets := [8, 8, 0, 0], num_keys := 1\<rparr>)\<rparr>"
  by (simp add: index3_def index2_eq tree_eval cong: eval_cong)

lemma search_index1: "search_key index1 1 = Some 0" "search_key index1 2 = Some (- 1)"
  by (simp_all add: index1_eq tree_eval cong: eval_cong)

lemma search_index2: "search_key index2 1 = Some 0" "search_key index2 2 = Some 8"
  by (simp_all add: index2_eq tree_eval cong: eval_cong)

lemma search_index3: "search_key index3 1 = Some (- 1)" "search_key index3 2 = Some 8"
  by (simp_all add: index3_eq tree_eval cong: eval_cong)

lemma search_empty: "search_key initialize_tree k = Some (- 1)"
  by (simp add: tree_eval cong: eval_cong)


lemma book_path [simp]:
  "data_file book = Some book_dat" "data_file book1 = Some book_dat"
  "data_file book2 = Some book_dat" "data_file book3 = Some book_dat"
  "column_count book = 2" "column_count book1 = 2" "column_count book2 = 2" "column_count book3 = 2"
  "primary_index book = initialize_tree" "primary_index book1 = index1"
  "primary_index book2 = index2" "primary_index book3 = index3"
  by (simp_all add: book_def book1_def book2_def book3_def)

lemma files_content [simp]: "file_content (files content) book_dat = content"
  by (simp add: files_def file_content_def)

lemma files_update [simp]: "(files content)(book_dat \<mapsto> content') = files content'"
  by (simp add: files_def)

lemma encode_dune: "encode_row [Some ''1'', Some ''Dune''] = '' 1|Dune\<newline>''"
  by (simp add: encode_row_def sanitize_def cstr_def NUL_def NEWLINE_def DELETED_MARKER_def MAX_ROW_LEN_def)

lemma encode_foo: "encode_row [Some ''2'', Some ''Foo''] = '' 2|Foo\<newline>''"
  by (simp add: encode_row_def sanitize_def cstr_def NUL_def NEWLINE_def DELETED_MARKER_def MAX_ROW_LEN_def)

lemma insert_row_absent:
  assumes "data_file table = Some path"
    and "search_key (primary_index table) k = Some (- 1)"
    and "length vals = column_count table"
  shows "(io_ok ok (column_count table) \<longrightarrow>
            insert_row ok fs table k vals =
              map_option
                (\<lambda>index. (int (length (file_content fs path)),
                           fs(path \<mapsto> file_content fs path @ encode_row vals),
                           table\<lparr>primary_index := index\<rparr>))
                (insert_key (primary_index table) k (int (length (file_content fs path)))))
       \<and> (\<not> io_ok ok (column_count table) \<longrightarrow>
            (\<exists>fs'. insert_row ok fs table k vals = Some (- 1, fs', table)))"
proof (intro conjI impI)
  assume a: "io_ok ok (column_count table)"
  have w: "write_columns ok vals (column_count table) 0 (file_content fs path @ '' '')
           = (True, (file_content fs path @ '' '') @ row_body vals)"
    using a assms(3) write_columns_all[of vals ok] by (simp add: io_ok_def)
  show "insert_row ok fs table k vals =
          map_option
            (\<lambda>index. (int (length (file_content fs path)),
                       fs(path \<mapsto> file_content fs path @ encode_row vals),
                       table\<lparr>primary_index := index\<rparr>))
            (insert_key (primary_index table) k (int (length (file_content fs path))))"
    using a assms(1,2) w
    by (cases "insert_key (primary_index table) k (int (length (file_content fs path)))")
       (simp_all add: insert_row_def io_ok_def encode_row_def Let_def)
next
  assume a: "\<not> io_ok ok (column_count table)"
  show "\<exists>fs'. insert_row ok fs table k vals = Some (- 1, fs', table)"
  proof (cases "ok SeekEnd \<and> ok Tell \<and> ok WriteMarker \<and> ok Flush")
    case True
    then have "\<not> (\<forall>j < column_count table. 0 \<le> j \<longrightarrow> ok (WriteColumn j))"
      using a by (simp add: io_ok_def)
    then have "fst (write_columns ok vals (column_count table) 0 (file_content fs path @ '' '')) = False"
      by (rule write_columns_fail)
    then show ?thesis using assms(1,2) by (simp add: insert_row_def Let_def)
  next
    case False
    then show ?thesis using assms(1,2) by (auto simp add: insert_row_def Let_def)
  qed
qed

section \<open>Claims about the row operations\<close>

text \<open>
  C5.  When the probe of the index finds the key (\<open>search_key\<close> returns an offset other
  than \<open>-1\<close>), \<open>insert_row\<close> returns \<open>-1\<close>, and the files and the table, its index
  included, are what they were: nothing is written, whatever the environment.
\<close>

theorem C5_insert_row_present_fails:
  assumes "search_key (primary_index table) k = Some off" and "off \<noteq> - 1"
  shows "insert_row ok fs table k vals = Some (- 1, fs, table)"
  using assms by (simp add: insert_row_def split: option.splits)

theorem C5_witness:
  "search_key (primary_index book1) 1 = Some 0
   \<and> insert_row all_ok (files '' 1|Dune\<newline>'') book1 1 [Some ''1'', Some ''Arrakis'']
       = Some (- 1, files '' 1|Dune\<newline>'', book1)"
  using C5_insert_row_present_fails[of book1 1 0 all_ok "files '' 1|Dune\<newline>''"
      "[Some ''1'', Some ''Arrakis'']"]
  by (simp add: search_index1)





lemma truncate_value_length: "\<exists>s. truncate_value v = Some s \<and> length s \<le> MAX_ROW_LEN - 1"
  by (cases v) (simp_all add: truncate_value_def)







lemma compact_rows_flag:
  "ok WriteTemp \<Longrightarrow> ok TellTemp \<Longrightarrow>
   compact_rows ok content pos temp off index = Some r \<Longrightarrow> fst r"
proof (induction ok content pos temp off index rule: compact_rows.induct)
  case (1 ok content pos temp current_write_offset new_index)
  show ?case
    using "1.prems" "1.IH"
    apply (subst (asm) compact_rows.simps)
    apply (auto split: option.splits list.splits if_splits)
    subgoal for x2 x21 x22
      by (cases "x21 = CHR '' ''") (auto simp: DELETED_MARKER_def)
    done
qed

lemma compact_table_closes:
  assumes "data_file table = Some path"
    and "fs (abs_path cwd (take (FILENAME_BUF_SIZE - 1) (table_name table @ ''.dat''))) = None"
    and "ok OpenTemp" and "ok WriteTemp" and "ok TellTemp" and "ok FlushTemp"
    and "compact_table ok cwd fs table = Some (fs', table')"
  shows "table' = table\<lparr>data_file := None\<rparr>"
proof -
  let ?temp = "abs_path cwd (take (FILENAME_BUF_SIZE - 1) (table_name table @ ''.tmp''))"
  obtain r where r: "compact_rows ok (file_content (fs(?temp \<mapsto> [])) path) 0 [] 0 initialize_tree = Some r"
    and f: "(fs', table') = compact_finish ok cwd (fs(?temp \<mapsto> [])) table ?temp r"
    using assms(1,3,7) by (auto simp: compact_table_def Let_def split: option.splits)
  have "fst r" using compact_rows_flag[OF assms(4,5) r] .
  then show ?thesis
    using f assms(2,6) by (auto simp: compact_finish_def Let_def split: if_splits)
qed


lemma insert_book: "insert_row all_ok (files []) book 1 [Some ''1'', Some ''Dune'']
    = Some (0, files '' 1|Dune\<newline>'', book1)"
  using insert_row_absent[of book book_dat 1 "[Some ''1'', Some ''Dune'']" all_ok "files []"]
  by (simp add: search_empty io_ok_def all_ok_def index1_inserted encode_dune book1_def)

lemma insert_book1: "insert_row all_ok (files '' 1|Dune\<newline>'') book1 2 [Some ''2'', Some ''Foo'']
     = Some (8, files '' 1|Dune\<newline> 2|Foo\<newline>'', book2)"
  using insert_row_absent[of book1 book_dat 2 "[Some ''2'', Some ''Foo'']" all_ok
      "files '' 1|Dune\<newline>''"]
  by (simp add: search_index1 io_ok_def all_ok_def index2_inserted encode_foo book1_def book2_def)

lemma delete_book2: "delete_row all_ok (files '' 1|Dune\<newline> 2|Foo\<newline>'') book2 1
     = Some (0, files ''#1|Dune\<newline> 2|Foo\<newline>'', book3)"
  by (simp add: delete_row_def search_index2 all_ok_def index3_deleted write_at_def DELETED_MARKER_def
      book2_def book3_def)

lemma read_book3: "read_row all_ok (files ''#1|Dune\<newline> 2|Foo\<newline>'') book3 2
          = Some (Some [''2'', ''Foo''])"
  by (simp add: search_index3 table_eval all_ok_def)

lemma compact_book3:
  "compact_table all_ok ''/srv'' (files ''#1|Dune\<newline> 2|Foo\<newline>'') book3
     = Some ((files ''#1|Dune\<newline> 2|Foo\<newline>'')(''/srv/book.tmp'' := None),
             book3\<lparr>data_file := None\<rparr>)"
  by (simp add: table_eval tree_eval file_content_def files_def no_files_def book_dat_def book3_def
      book_def all_ok_def cong: eval_cong)

text \<open>
  C3.  \<open>create_table\<close> opens the data file \<open>scaffolded_resources/<name>/<name>.dat\<close> under
  the working directory, \<open>compact_table\<close> removes \<open>\<open><name>.dat\<close>\<close> in the working directory
  itself and renames the temporary file to it.  When the working directory has no file
  \<open>\<open><name>.dat\<close>\<close> and the calls on the temporary file succeed, the compaction ends with
  the data file closed and no handle in the table (the old index stays): from then on
  \<open>read_row\<close> returns \<open>NULL\<close> for every key, also for the keys that were live.
\<close>

theorem C3_compaction_closes_table:
  assumes "data_file table = Some path"
    and "fs (abs_path cwd (take (FILENAME_BUF_SIZE - 1) (table_name table @ ''.dat''))) = None"
    and "ok OpenTemp" and "ok WriteTemp" and "ok TellTemp" and "ok FlushTemp"
    and "compact_table ok cwd fs table = Some (fs', table')"
  shows "table' = table\<lparr>data_file := None\<rparr> \<and> (\<forall>ok' k. read_row ok' fs' table' k = Some None)"
  using compact_table_closes[OF assms] by (simp add: read_row_def)

theorem C3_witness:
  "fst (create_table all_ok ''/srv'' no_files library ''book'' [''id'', ''title'']) = Some book
   \<and> insert_row all_ok (files []) book 1 [Some ''1'', Some ''Dune'']
       = Some (0, files '' 1|Dune\<newline>'', book1)
   \<and> insert_row all_ok (files '' 1|Dune\<newline>'') book1 2 [Some ''2'', Some ''Foo'']
       = Some (8, files '' 1|Dune\<newline> 2|Foo\<newline>'', book2)
   \<and> delete_row all_ok (files '' 1|Dune\<newline> 2|Foo\<newline>'') book2 1
       = Some (0, files ''#1|Dune\<newline> 2|Foo\<newline>'', book3)
   \<and> read_row all_ok (files ''#1|Dune\<newline> 2|Foo\<newline>'') book3 2
       = Some (Some [''2'', ''Foo''])
   \<and> (\<exists>fs' table'.
         compact_table all_ok ''/srv'' (files ''#1|Dune\<newline> 2|Foo\<newline>'') book3
           = Some (fs', table')
         \<and> data_file table' = None
         \<and> read_row all_ok fs' table' 2 = Some None)"
proof -
  have n: "files ''#1|Dune\<newline> 2|Foo\<newline>''
             (abs_path ''/srv'' (take (FILENAME_BUF_SIZE - 1) (table_name book3 @ ''.dat''))) = None"
    by (simp add: files_def no_files_def book_dat_def book3_def book_def abs_path_def FILENAME_BUF_SIZE_def)
  show ?thesis
    using C3_compaction_closes_table[of book3 book_dat
        "files ''#1|Dune\<newline> 2|Foo\<newline>''" "''/srv''" all_ok, OF _ n _ _ _ _ compact_book3]
    by (simp add: book_created insert_book insert_book1 delete_book2 read_book3 compact_book3 all_ok_def)
qed

section \<open>Claims about the split of a leaf\<close>

text \<open>Half of \<open>n\<close>, rounded up.\<close>

definition ceil_half :: "nat \<Rightarrow> nat" where
  "ceil_half n = (n + 1) div 2"

definition index4 :: BPlusTree where
  "index4 = the (insert_key (the (insert_key index2 3 16)) 4 24)"

lemma index4_eq:
  "index4 = initialize_tree\<lparr>heap := (heap initialize_tree)
              (1 := (heap initialize_tree 1)\<lparr>keys := [1, 2, 3, 4], file_offsets := [0, 8, 16, 24], num_keys := 4\<rparr>)\<rparr>"
  by (simp add: index4_def index2_eq tree_eval cong: eval_cong)

lemma split_leaf_node_snd: "snd (split_leaf_node tree leaf key off) = brk tree"
  by (simp add: split_leaf_node_def create_new_node_def Let_def)

lemma split_leaf_node_leaf:
  "leaf \<noteq> brk tree \<Longrightarrow>
   heap (fst (split_leaf_node tree leaf key off)) leaf =
     (heap tree leaf)
       \<lparr>num_keys := (MAX_KEYS + 1) div 2,
        keys := copy_range ((MAX_KEYS + 1) div 2) (fst (split_temp (heap tree leaf) key off)) 0 0
                  (keys (heap tree leaf)),
        file_offsets := copy_range ((MAX_KEYS + 1) div 2) (snd (split_temp (heap tree leaf) key off)) 0 0
                  (file_offsets (heap tree leaf)),
        next_leaf := brk tree\<rparr>"
  by (simp add: split_leaf_node_def create_new_node_def upd_node_def Let_def)

lemma split_leaf_node_new:
  "leaf \<noteq> brk tree \<Longrightarrow>
   heap (fst (split_leaf_node tree leaf key off)) (brk tree) =
     (empty_node True)
       \<lparr>parent := parent (heap tree leaf),
        num_keys := MAX_KEYS + 1 - (MAX_KEYS + 1) div 2,
        keys := copy_range (MAX_KEYS + 1 - (MAX_KEYS + 1) div 2) (fst (split_temp (heap tree leaf) key off))
                  ((MAX_KEYS + 1) div 2) 0 (keys (empty_node True)),
        file_offsets := copy_range (MAX_KEYS + 1 - (MAX_KEYS + 1) div 2) (snd (split_temp (heap tree leaf) key off))
                  ((MAX_KEYS + 1) div 2) 0 (file_offsets (empty_node True)),
        next_leaf := next_leaf (heap tree leaf)\<rparr>"
  by (simp add: split_leaf_node_def create_new_node_def upd_node_def Let_def)

text \<open>
  C8.  The split of a full leaf leaves \<open>(MAX_KEYS + 1) / 2\<close> entries, in C's integer
  division, in the original leaf: the first 2 of the 5 merged entries, not the
  \<open>ceil((MAX_KEYS + 1) / 2) = 3\<close> that the specification and the comment in the code
  announce.  The other 3 go to the new leaf, which is linked after the original one.
\<close>

theorem C8_leaf_split_sizes:
  assumes "leaf \<noteq> brk tree" and "length (keys (heap tree leaf)) = MAX_KEYS"
  shows "num_keys (heap (fst (split_leaf_node tree leaf key off)) leaf) = 2
       \<and> num_keys (heap (fst (split_leaf_node tree leaf key off)) (snd (split_leaf_node tree leaf key off))) = 3
       \<and> ceil_half (MAX_KEYS + 1) = 3
       \<and> (\<forall>i<2. keys (heap (fst (split_leaf_node tree leaf key off)) leaf) ! i
                  = fst (split_temp (heap tree leaf) key off) ! i)
       \<and> (\<forall>i<3. keys (heap (fst (split_leaf_node tree leaf key off)) (snd (split_leaf_node tree leaf key off))) ! i
                  = fst (split_temp (heap tree leaf) key off) ! (2 + i))
       \<and> next_leaf (heap (fst (split_leaf_node tree leaf key off)) leaf) = snd (split_leaf_node tree leaf key off)
       \<and> next_leaf (heap (fst (split_leaf_node tree leaf key off)) (snd (split_leaf_node tree leaf key off)))
           = next_leaf (heap tree leaf)"
proof -
  have n: "Suc MAX_KEYS div 2 = 2" "MAX_KEYS - Suc 0 = 3" "ceil_half (Suc MAX_KEYS) = 3"
    by (simp_all add: MAX_KEYS_def ceil_half_def)
  have l: "length (keys (empty_node True)) = 4" "length (keys (heap tree leaf)) = 4"
    using assms(2) by (simp_all add: empty_node_def MAX_KEYS_def)
  show ?thesis
    by (simp add: split_leaf_node_snd split_leaf_node_leaf[OF assms(1)] split_leaf_node_new[OF assms(1)]
        n l nth_copy_range)
qed

lemma split_index4:
  "split_leaf_node index4 (Suc 0) 5 32 =
     (\<lparr>heap = (heap initialize_tree)
         (2 := \<lparr>keys = [3, 4, 5, 0], file_offsets = [16, 24, 32, 0], children = [0, 0, 0, 0, 0],
                  num_keys = 3, is_leaf = True, parent = 0, next_leaf = 0\<rparr>,
          1 := \<lparr>keys = [1, 2, 3, 4], file_offsets = [0, 8, 16, 24], children = [0, 0, 0, 0, 0],
                  num_keys = 2, is_leaf = True, parent = 0, next_leaf = 2\<rparr>),
       live = {2, 1}, brk = 3, root = 1, order = 5\<rparr>, 2)"
  by (simp add: index4_eq tree_eval cong: eval_cong)

lemma split_temp_index4: "split_temp (heap index4 (Suc 0)) 5 32 = ([1, 2, 3, 4, 5], [0, 8, 16, 24, 32])"
  by (simp add: index4_eq tree_eval cong: eval_cong)

theorem C8_witness:
  "split_temp (heap index4 1) 5 32 = ([1, 2, 3, 4, 5], [0, 8, 16, 24, 32])
   \<and> num_keys (heap (fst (split_leaf_node index4 1 5 32)) 1) = 2
   \<and> take 2 (keys (heap (fst (split_leaf_node index4 1 5 32)) 1)) = [1, 2]
   \<and> snd (split_leaf_node index4 1 5 32) = 2
   \<and> num_keys (heap (fst (split_leaf_node index4 1 5 32)) 2) = 3
   \<and> take 3 (keys (heap (fst (split_leaf_node index4 1 5 32)) 2)) = [3, 4, 5]"
proof -
  have p1: "1 \<noteq> brk index4"
    by (simp add: index4_eq initialize_tree_def create_new_node_def upd_node_def Let_def)
  have p2: "length (keys (heap index4 1)) = MAX_KEYS"
    by (simp add: index4_eq MAX_KEYS_def)
  have "num_keys (heap (fst (split_leaf_node index4 1 5 32)) 1) = 2"
    using C8_leaf_split_sizes[OF p1 p2, of 5 32] by (rule conjunct1)
  then show ?thesis
    by (simp add: split_index4 split_temp_index4)
qed

end
